theory Spec2Isabelle
  imports Main
begin

section \<open>Python values\<close>

text \<open>
  The values that \<open>response.json()\<close> produces. A parsed JSON object is a Python dict; it is
  kept as an association list read with \<open>map_of\<close>. JSON numbers are the integers
  (Python's unbounded \<open>int\<close>); fractional numbers are outside this model.
\<close>

datatype json =
    JNull
  | JBool bool
  | JInt int
  | JStr string
  | JList "json list"
  | JDict "(string \<times> json) list"

text \<open>
  Instances of Python's class \<open>Exception\<close>, the ones \<open>except Exception\<close> catches:
  what the HTTP library raises (timeout, connection error, undecodable body), what
  the dynamic typing of the handlers raises on a value of the wrong type, and what
  \<open>time.localtime\<close> raises on a timestamp it cannot convert.
\<close>

datatype exn =
    TimeoutError
  | ClientError
  | ContentTypeError
  | AttributeError
  | TypeError
  | OverflowError
  | OtherException string

text \<open>Truth value of a Python object, as \<open>if x\<close> and \<open>not x\<close> take it.\<close>

fun truthy :: "json \<Rightarrow> bool" where
  "truthy JNull = False"
| "truthy (JBool b) = b"
| "truthy (JInt i) = (i \<noteq> 0)"
| "truthy (JStr s) = (s \<noteq> [])"
| "truthy (JList xs) = (xs \<noteq> [])"
| "truthy (JDict kvs) = (kvs \<noteq> [])"

text \<open>\<open>d.get(k, default)\<close>: only a dict has the method; any other value raises AttributeError.\<close>

fun dict_get :: "json \<Rightarrow> string \<Rightarrow> json \<Rightarrow> exn + json" where
  "dict_get (JDict kvs) k dflt = Inr (case map_of kvs k of Some v \<Rightarrow> v | None \<Rightarrow> dflt)"
| "dict_get _ k dflt = Inl AttributeError"

text \<open>
  The numeric value of a Python number (\<open>bool\<close> is a subclass of \<open>int\<close>). Comparing any
  other value with an \<open>int\<close> by \<open>>\<close> raises TypeError.
\<close>

fun num_of :: "json \<Rightarrow> int option" where
  "num_of (JInt i) = Some i"
| "num_of (JBool b) = Some (if b then 1 else 0)"
| "num_of _ = None"

section \<open>Constants (const.py)\<close>

definition API_AUTH :: string where "API_AUTH = ''/open/auth/token''"
definition API_CRONS :: string where "API_CRONS = ''/open/crons''"
definition API_CRONS_RUN :: string where "API_CRONS_RUN = ''/open/crons/run''"
definition TOKEN_REFRESH_THRESHOLD :: int where "TOKEN_REFRESH_THRESHOLD = 86400"
definition TOKEN_EXPIRY_BUFFER :: int where "TOKEN_EXPIRY_BUFFER = 3600"

section \<open>The client and its HTTP transport\<close>

datatype session_state = NoSession | SessionOpen | SessionClosed

record client =
  base_url :: string
  client_id :: string
  client_secret :: string
  token :: json
  token_expires :: int
  session :: session_state
  refresh_lock :: bool
  last_refresh_time :: int

text \<open>
  A request handed to the HTTP session: the token exchange (URL, client id, client secret),
  the task list (URL, bearer token) and the run call (URL, bearer token, JSON body).
\<close>

datatype request =
    AuthRequest string string string
  | CronsRequest string json
  | RunRequest string json "string list"

text \<open>
  What one HTTP call does, as the handlers see it: the request raises (timeout, connection
  error), or a response arrives with a status and a body whose \<open>json()\<close> either raises or
  yields a value.
\<close>

datatype body = BodyRaises exn | Body json

datatype http_outcome = Raises exn | Response int body

text \<open>Decimal text of the port, for the base URL.\<close>

fun str_nat :: "nat \<Rightarrow> string" where
  "str_nat n =
     (if n < 10 then [char_of (48 + n)]
      else str_nat (n div 10) @ [char_of (48 + n mod 10)])"

definition str_int :: "int \<Rightarrow> string" where
  "str_int i = (if i < 0 then CHR ''-'' # str_nat (nat (- i)) else str_nat (nat i))"

text \<open>\<open>QingLongClient.__init__\<close>.\<close>

definition QingLongClient ::
  "string \<Rightarrow> int \<Rightarrow> bool \<Rightarrow> json \<Rightarrow> int \<Rightarrow> string \<Rightarrow> string \<Rightarrow> client" where
  "QingLongClient host port ssl tok tok_expires cid csecret =
     \<lparr> base_url = (if ssl then ''https'' else ''http'') @ ''://'' @ host @ '':'' @ str_int port,
       client_id = cid,
       client_secret = csecret,
       token = tok,
       token_expires = tok_expires,
       session = NoSession,
       refresh_lock = False,
       last_refresh_time = 0 \<rparr>"

text \<open>\<open>_get_session\<close>: a session is created when there is none or it is closed.\<close>

definition get_session :: "client \<Rightarrow> client" where
  "get_session s =
     (if session s = NoSession \<or> session s = SessionClosed
      then s\<lparr>session := SessionOpen\<rparr> else s)"

section \<open>Token refresh\<close>

text \<open>
  \<open>_refresh_token_if_needed\<close>, split where the coroutine suspends.

  \<open>refresh_begin\<close> is the code up to the request (source lines 62 to 92): the three early
  returns, then the flag is set, the session obtained and the request issued. It yields
  \<open>Inl b\<close> when the call returned \<open>b\<close> without a request, and \<open>Inr (s', req)\<close> when the
  call is suspended on the request \<open>req\<close> in state \<open>s'\<close>.
\<close>

definition refresh_begin :: "int \<Rightarrow> client \<Rightarrow> bool + client \<times> request" where
  "refresh_begin current_time s =
     (if token_expires s - current_time > TOKEN_REFRESH_THRESHOLD then Inl True
      else if refresh_lock s then Inl False
      else if current_time - last_refresh_time s < 300 then Inl False
      else
        (let s1 = s\<lparr>refresh_lock := True\<rparr>;
             s2 = get_session s1
         in Inr (s2, AuthRequest (base_url s2 @ API_AUTH) (client_id s2) (client_secret s2))))"

text \<open>
  \<open>refresh_response\<close> is the body of the \<open>try\<close> from the response on (source lines 93 to
  124), with the state it leaves behind; \<open>Inl\<close> is an exception on its way to the
  \<open>except\<close> clause. The two tests of line 110 are the \<open>truthy\<close> test and the
  comparison, which raises on a value that is no number; \<open>int(expiration)\<close> is the
  number itself.

  The log calls do not touch the client, and one of them can raise: the call at lines
  112 to 114 formats the expiry that line 111 has just assigned with
  \<open>time.localtime\<close>, which raises (OverflowError or OSError) on a timestamp outside the
  range of the platform. The exception leaves the \<open>try\<close> with the expiry assigned and the
  token not. The range depends on the platform, so it is the parameter \<open>localtime_ok\<close>:
  the timestamps that \<open>time.localtime\<close> accepts.
\<close>

definition refresh_response ::
  "(int \<Rightarrow> bool) \<Rightarrow> int \<Rightarrow> http_outcome \<Rightarrow> client \<Rightarrow> (exn + bool) \<times> client" where
  "refresh_response localtime_ok current_time outcome s =
     (case outcome of
        Raises err \<Rightarrow> (Inl err, s)
      | Response status bdy \<Rightarrow>
          if status \<noteq> 200 then (Inr False, s)
          else
            (case bdy of
               BodyRaises err \<Rightarrow> (Inl err, s)
             | Body data \<Rightarrow>
                 (case dict_get data ''code'' JNull of
                    Inl err \<Rightarrow> (Inl err, s)
                  | Inr code \<Rightarrow>
                      if code \<noteq> JInt 200 then (Inr False, s)
                      else
                        (case dict_get data ''data'' (JDict []) of
                           Inl err \<Rightarrow> (Inl err, s)
                         | Inr token_data \<Rightarrow>
                             (case dict_get token_data ''token'' JNull of
                                Inl err \<Rightarrow> (Inl err, s)
                              | Inr new_token \<Rightarrow>
                                  if \<not> truthy new_token then (Inr False, s)
                                  else
                                    (case dict_get token_data ''expiration'' JNull of
                                       Inl err \<Rightarrow> (Inl err, s)
                                     | Inr expiration \<Rightarrow>
                                         if truthy expiration then
                                           (case num_of expiration of
                                              None \<Rightarrow> (Inl TypeError, s)
                                            | Some e \<Rightarrow>
                                                if e > current_time then
                                                  (let s1 = s\<lparr>token_expires := e\<rparr>
                                                   in if \<not> localtime_ok e
                                                      then (Inl OverflowError, s1)
                                                      else
                                                        (Inr True,
                                                         s1\<lparr>token := new_token,
                                                            last_refresh_time :=
                                                              current_time\<rparr>))
                                                else
                                                  (Inr True,
                                                   s\<lparr>token_expires := current_time + 2592000,
                                                      token := new_token,
                                                      last_refresh_time := current_time\<rparr>))
                                         else
                                           (Inr True,
                                            s\<lparr>token_expires := current_time + 2592000,
                                               token := new_token,
                                               last_refresh_time := current_time\<rparr>)))))))"

text \<open>
  \<open>refresh_resume\<close> is the whole of the \<open>try\<close> statement after the request: the body,
  the \<open>except Exception\<close> clause that turns an exception into \<open>False\<close>, and the
  \<open>finally\<close> clause that clears the flag.
\<close>

definition refresh_resume ::
  "(int \<Rightarrow> bool) \<Rightarrow> int \<Rightarrow> http_outcome \<Rightarrow> client \<Rightarrow> (exn + bool) \<times> client" where
  "refresh_resume localtime_ok current_time outcome s =
     (case refresh_response localtime_ok current_time outcome s of
        (Inl err, s') \<Rightarrow> (Inr False, s'\<lparr>refresh_lock := False\<rparr>)
      | (Inr b, s') \<Rightarrow> (Inr b, s'\<lparr>refresh_lock := False\<rparr>))"

text \<open>
  The call run to completion: its result (\<open>Inl\<close> would be an exception leaving the
  method), the client afterwards, and the requests it issued.
\<close>

definition refresh_token_if_needed ::
  "(int \<Rightarrow> bool) \<Rightarrow> int \<Rightarrow> http_outcome \<Rightarrow> client
     \<Rightarrow> (exn + bool) \<times> client \<times> request list" where
  "refresh_token_if_needed localtime_ok current_time outcome s =
     (case refresh_begin current_time s of
        Inl b \<Rightarrow> (Inr b, s, [])
      | Inr (s', req) \<Rightarrow>
          (case refresh_resume localtime_ok current_time outcome s' of
             (r, s'') \<Rightarrow> (r, s'', [req])))"

section \<open>Task client\<close>

text \<open>
  \<open>async_run_task\<close>: first the body of its \<open>try\<close> (source lines 135 to 167). The result
  of the refresh is not looked at; the request is sent with whatever token is held.
  The time is the one the refresh reads, and \<open>localtime_ok\<close> is passed on to it.
\<close>

definition run_task_body ::
  "(int \<Rightarrow> bool) \<Rightarrow> int \<Rightarrow> http_outcome \<Rightarrow> http_outcome \<Rightarrow> string \<Rightarrow> client
     \<Rightarrow> (exn + bool) \<times> client \<times> request list" where
  "run_task_body localtime_ok current_time auth_outcome run_outcome task_id s =
     (case refresh_token_if_needed localtime_ok current_time auth_outcome s of
        (Inl err, s1, reqs) \<Rightarrow> (Inl err, s1, reqs)
      | (Inr fresh, s1, reqs) \<Rightarrow>
          (let s2 = get_session s1;
               reqs2 = reqs @ [RunRequest (base_url s2 @ API_CRONS_RUN) (token s2) [task_id]]
           in case run_outcome of
                Raises err \<Rightarrow> (Inl err, s2, reqs2)
              | Response status bdy \<Rightarrow>
                  if status = 401 then (Inr False, s2\<lparr>last_refresh_time := 0\<rparr>, reqs2)
                  else if status \<noteq> 200 then (Inr False, s2, reqs2)
                  else
                    (case bdy of
                       BodyRaises err \<Rightarrow> (Inl err, s2, reqs2)
                     | Body result \<Rightarrow>
                         (case dict_get result ''code'' JNull of
                            Inl err \<Rightarrow> (Inl err, s2, reqs2)
                          | Inr code \<Rightarrow>
                              if code \<noteq> JInt 200 then (Inr False, s2, reqs2)
                              else (Inr True, s2, reqs2)))))"

text \<open>The method itself: \<open>except Exception\<close> returns \<open>False\<close>.\<close>

definition async_run_task ::
  "(int \<Rightarrow> bool) \<Rightarrow> int \<Rightarrow> http_outcome \<Rightarrow> http_outcome \<Rightarrow> string \<Rightarrow> client
     \<Rightarrow> (exn + bool) \<times> client \<times> request list" where
  "async_run_task localtime_ok current_time auth_outcome run_outcome task_id s =
     (case run_task_body localtime_ok current_time auth_outcome run_outcome task_id s of
        (Inl err, s', reqs) \<Rightarrow> (Inr False, s', reqs)
      | (Inr b, s', reqs) \<Rightarrow> (Inr b, s', reqs))"

text \<open>\<open>async_get_tasks\<close>, in the same two parts (source lines 210 to 238, then 240 to 242).\<close>

definition get_tasks_body ::
  "(int \<Rightarrow> bool) \<Rightarrow> int \<Rightarrow> http_outcome \<Rightarrow> http_outcome \<Rightarrow> client
     \<Rightarrow> (exn + json) \<times> client \<times> request list" where
  "get_tasks_body localtime_ok current_time auth_outcome crons_outcome s =
     (case refresh_token_if_needed localtime_ok current_time auth_outcome s of
        (Inl err, s1, reqs) \<Rightarrow> (Inl err, s1, reqs)
      | (Inr fresh, s1, reqs) \<Rightarrow>
          (let s2 = get_session s1;
               reqs2 = reqs @ [CronsRequest (base_url s2 @ API_CRONS) (token s2)]
           in case crons_outcome of
                Raises err \<Rightarrow> (Inl err, s2, reqs2)
              | Response status bdy \<Rightarrow>
                  if status = 401 then (Inr (JDict []), s2\<lparr>last_refresh_time := 0\<rparr>, reqs2)
                  else if status \<noteq> 200 then (Inr (JDict []), s2, reqs2)
                  else
                    (case bdy of
                       BodyRaises err \<Rightarrow> (Inl err, s2, reqs2)
                     | Body data \<Rightarrow>
                         (case dict_get data ''code'' JNull of
                            Inl err \<Rightarrow> (Inl err, s2, reqs2)
                          | Inr code \<Rightarrow>
                              if code \<noteq> JInt 200 then (Inr (JDict []), s2, reqs2)
                              else (Inr data, s2, reqs2)))))"

definition async_get_tasks ::
  "(int \<Rightarrow> bool) \<Rightarrow> int \<Rightarrow> http_outcome \<Rightarrow> http_outcome \<Rightarrow> client
     \<Rightarrow> (exn + json) \<times> client \<times> request list" where
  "async_get_tasks localtime_ok current_time auth_outcome crons_outcome s =
     (case get_tasks_body localtime_ok current_time auth_outcome crons_outcome s of
        (Inl err, s', reqs) \<Rightarrow> (Inr (JDict []), s', reqs)
      | (Inr data, s', reqs) \<Rightarrow> (Inr data, s', reqs))"

section \<open>Tasks sensor (sensor.py)\<close>

text \<open>\<open>_extract_tasks_list\<close>.\<close>

definition extract_tasks_list :: "json \<Rightarrow> json" where
  "extract_tasks_list tasks_data =
     (case tasks_data of
        JDict kvs \<Rightarrow>
          (case map_of kvs ''data'' of
             None \<Rightarrow> JList []
           | Some inner_data \<Rightarrow>
               (case inner_data of
                  JDict ikvs \<Rightarrow>
                    (case map_of ikvs ''data'' of
                       Some v \<Rightarrow> v
                     | None \<Rightarrow> JList [])
                | JList xs \<Rightarrow> JList xs
                | _ \<Rightarrow> JList []))
      | _ \<Rightarrow> JList [])"

text \<open>
  \<open>_get_tasks_attributes\<close>: the counters and the command list; the two display strings
  of the dict (\<open>last_updated\<close>, \<open>polling_interval\<close>) are left out. \<open>count_tasks\<close> is the
  loop over the tasks.
\<close>

record tasks_attributes =
  total_tasks :: nat
  commands :: "json list"
  enabled_tasks :: int
  disabled_tasks :: int

fun count_tasks :: "json list \<Rightarrow> tasks_attributes \<Rightarrow> tasks_attributes" where
  "count_tasks [] attributes = attributes"
| "count_tasks (task # rest) attributes =
     count_tasks rest
       (case task of
          JDict kvs \<Rightarrow>
            (let command = (case map_of kvs ''command'' of Some c \<Rightarrow> c | None \<Rightarrow> JStr []);
                 a1 = attributes\<lparr>commands := commands attributes @ [command]\<rparr>
             in if truthy (case map_of kvs ''isDisabled'' of Some d \<Rightarrow> d | None \<Rightarrow> JNull)
                then a1\<lparr>disabled_tasks := disabled_tasks a1 + 1\<rparr>
                else a1\<lparr>enabled_tasks := enabled_tasks a1 + 1\<rparr>)
        | _ \<Rightarrow> attributes)"

definition get_tasks_attributes :: "json list \<Rightarrow> tasks_attributes" where
  "get_tasks_attributes tasks_list =
     count_tasks tasks_list
       \<lparr> total_tasks = length tasks_list, commands = [],
         enabled_tasks = 0, disabled_tasks = 0 \<rparr>"

section \<open>Interleaved refresh calls\<close>

text \<open>
  Coroutines of one client run one at a time and give up control only where they wait
  for the network. A refresh call is then two atomic steps: \<open>refresh_begin\<close> until it
  is suspended on its request, and \<open>refresh_resume\<close> when the outcome arrives. The system
  keeps, besides the client, the suspended refresh calls (each with the time it read) and
  the token-exchange requests issued so far. \<open>Invalidate\<close> is the reset of the last
  refresh time that the task calls do on HTTP 401.
\<close>

record system =
  cl :: client
  pending :: "int list"
  sent :: "request list"

datatype event = Call int | Complete nat http_outcome | Invalidate

fun step :: "(int \<Rightarrow> bool) \<Rightarrow> system \<Rightarrow> event \<Rightarrow> system" where
  "step localtime_ok \<sigma> (Call current_time) =
     (case refresh_begin current_time (cl \<sigma>) of
        Inl b \<Rightarrow> \<sigma>
      | Inr (s', req) \<Rightarrow>
          \<sigma>\<lparr>cl := s', pending := pending \<sigma> @ [current_time], sent := sent \<sigma> @ [req]\<rparr>)"
| "step localtime_ok \<sigma> (Complete i outcome) =
     (if i < length (pending \<sigma>)
      then \<sigma>\<lparr>cl := snd (refresh_resume localtime_ok (pending \<sigma> ! i) outcome (cl \<sigma>)),
             pending := take i (pending \<sigma>) @ drop (Suc i) (pending \<sigma>)\<rparr>
      else \<sigma>)"
| "step localtime_ok \<sigma> Invalidate = \<sigma>\<lparr>cl := (cl \<sigma>)\<lparr>last_refresh_time := 0\<rparr>\<rparr>"

definition new_system :: "client \<Rightarrow> system" where
  "new_system s = \<lparr> cl = s, pending = [], sent = [] \<rparr>"

definition run_events :: "(int \<Rightarrow> bool) \<Rightarrow> client \<Rightarrow> event list \<Rightarrow> system" where
  "run_events localtime_ok s evs = foldl (step localtime_ok) (new_system s) evs"

section \<open>Reading a response\<close>

text \<open>
  What the claims say about a response, read off the outcome of the HTTP call: its
  status, the application code of a dict body, and the \<open>token\<close> and \<open>expiration\<close>
  fields of the dict under \<open>data\<close>. Each is \<open>None\<close> where there is no such thing.
\<close>

definition http_status :: "http_outcome \<Rightarrow> int option" where
  "http_status outcome =
     (case outcome of Raises err \<Rightarrow> None | Response status bdy \<Rightarrow> Some status)"

definition app_code :: "http_outcome \<Rightarrow> json option" where
  "app_code outcome =
     (case outcome of
        Response status (Body (JDict kvs)) \<Rightarrow> map_of kvs ''code''
      | _ \<Rightarrow> None)"

definition token_field :: "http_outcome \<Rightarrow> json option" where
  "token_field outcome =
     (case outcome of
        Response status (Body (JDict kvs)) \<Rightarrow>
          (case map_of kvs ''data'' of
             Some (JDict tkvs) \<Rightarrow> map_of tkvs ''token''
           | _ \<Rightarrow> None)
      | _ \<Rightarrow> None)"

definition expiration_field :: "http_outcome \<Rightarrow> json option" where
  "expiration_field outcome =
     (case outcome of
        Response status (Body (JDict kvs)) \<Rightarrow>
          (case map_of kvs ''data'' of
             Some (JDict tkvs) \<Rightarrow> map_of tkvs ''expiration''
           | _ \<Rightarrow> None)
      | _ \<Rightarrow> None)"

text \<open>
  The expiry the specification assigns on success: the response's expiration when it is
  a number greater than the current time, and 30 days from now otherwise.
\<close>

definition new_expiry :: "int \<Rightarrow> http_outcome \<Rightarrow> int" where
  "new_expiry now outcome =
     (case Option.bind (expiration_field outcome) num_of of
        Some e \<Rightarrow> if e > now then e else now + 2592000
      | None \<Rightarrow> now + 2592000)"

text \<open>
  The expiration field is usable: it is absent, or falsy, or a number that is not after
  the current time or that \<open>time.localtime\<close> accepts.
\<close>

definition expiration_usable :: "(int \<Rightarrow> bool) \<Rightarrow> int \<Rightarrow> http_outcome \<Rightarrow> bool" where
  "expiration_usable localtime_ok now outcome =
     (case expiration_field outcome of
        None \<Rightarrow> True
      | Some v \<Rightarrow>
          (if truthy v
           then (case num_of v of None \<Rightarrow> False | Some e \<Rightarrow> e \<le> now \<or> localtime_ok e)
           else True))"

text \<open>
  The invariant of the interleaved system: the flag is set exactly while a refresh call
  is suspended, and at most one is.
\<close>

definition sys_inv :: "system \<Rightarrow> bool" where
  "sys_inv \<sigma> \<longleftrightarrow>
     (refresh_lock (cl \<sigma>) \<longleftrightarrow> pending \<sigma> \<noteq> []) \<and> length (pending \<sigma>) \<le> 1"

text \<open>
  Example data: a platform whose \<open>time.localtime\<close> accepts the timestamps from the epoch
  to the end of a signed 32-bit \<open>time_t\<close> (every platform accepts these, and none accepts
  a timestamp that does not fit 64 bits), a client whose token has expired, and a
  token-exchange response.
\<close>

abbreviation example_localtime :: "int \<Rightarrow> bool" where
  "example_localtime \<equiv> (\<lambda>t. 0 \<le> t \<and> t < 2147483648)"

abbreviation stale_client :: client where
  "stale_client \<equiv>
     \<lparr>base_url = ''http://ql:5700'', client_id = ''id'', client_secret = ''secret'',
      token = JStr ''old'', token_expires = 0, session = NoSession,
      refresh_lock = False, last_refresh_time = 0\<rparr>"

abbreviation token_response :: http_outcome where
  "token_response \<equiv>
     Response 200 (Body (JDict [(''code'', JInt 200),
       (''data'', JDict [(''token'', JStr ''new''), (''expiration'', JInt 200000)])]))"

text \<open>The task-list response of the specification's example.\<close>

abbreviation example_task :: json where
  "example_task \<equiv>
     JDict [(''id'', JStr ''1''), (''command'', JStr ''task foo.js''), (''isDisabled'', JInt 0)]"

abbreviation example_payload :: json where
  "example_payload \<equiv>
     JDict [(''code'', JInt 200),
            (''data'', JDict [(''data'', JList [example_task]), (''total'', JInt 1)])]"

section \<open>The paths of the refresh\<close>

text \<open>The definitions that evaluate a refresh call on concrete data.\<close>

lemmas run_defs =
  refresh_token_if_needed_def refresh_begin_def refresh_resume_def refresh_response_def
  get_session_def TOKEN_REFRESH_THRESHOLD_def API_AUTH_def

lemma refresh_begin_cases:
  "refresh_begin now s =
     (if token_expires s - now > 86400 then Inl True
      else if refresh_lock s then Inl False
      else if now - last_refresh_time s < 300 then Inl False
      else Inr (get_session (s\<lparr>refresh_lock := True\<rparr>),
                AuthRequest (base_url s @ API_AUTH) (client_id s) (client_secret s)))"
  by (simp add: refresh_begin_def TOKEN_REFRESH_THRESHOLD_def get_session_def Let_def)

lemma refresh_locked:
  "refresh_lock s \<Longrightarrow>
     refresh_token_if_needed lt now outcome s = (Inr (token_expires s - now > 86400), s, [])"
  by (simp add: refresh_token_if_needed_def refresh_begin_cases)

lemma refresh_not_performed:
  "token_expires s - now > 86400 \<or> refresh_lock s \<or> now - last_refresh_time s < 300 \<Longrightarrow>
   refresh_token_if_needed lt now outcome s = (Inr (token_expires s - now > 86400), s, [])"
  by (auto simp add: refresh_token_if_needed_def refresh_begin_cases split: prod.splits)

lemma refresh_performed:
  "\<not> token_expires s - now > 86400 \<Longrightarrow> \<not> refresh_lock s
   \<Longrightarrow> \<not> now - last_refresh_time s < 300 \<Longrightarrow>
   refresh_token_if_needed lt now outcome s =
     (fst (refresh_resume lt now outcome (get_session (s\<lparr>refresh_lock := True\<rparr>))),
      snd (refresh_resume lt now outcome (get_session (s\<lparr>refresh_lock := True\<rparr>))),
      [AuthRequest (base_url s @ API_AUTH) (client_id s) (client_secret s)])"
  by (simp add: refresh_token_if_needed_def refresh_begin_cases split: prod.splits)

lemma refresh_reqs_iff:
  "snd (snd (refresh_token_if_needed lt now outcome s)) \<noteq> [] \<longleftrightarrow>
     \<not> token_expires s - now > 86400 \<and> \<not> refresh_lock s
     \<and> \<not> now - last_refresh_time s < 300"
  by (auto simp add: refresh_token_if_needed_def refresh_begin_cases split: prod.splits)

lemma refresh_resume_unlocks: "\<not> refresh_lock (snd (refresh_resume lt now outcome s))"
  by (simp add: refresh_resume_def split: prod.splits sum.splits)

lemma refresh_resume_no_exn: "\<exists>b. fst (refresh_resume lt now outcome s) = Inr b"
  by (auto simp: refresh_resume_def split: prod.splits sum.splits)

section \<open>The interleaved system keeps its invariant\<close>

lemma step_inv: "sys_inv \<sigma> \<Longrightarrow> sys_inv (step lt \<sigma> e)"
proof (cases e)
  case (Call t)
  assume "sys_inv \<sigma>"
  then show ?thesis using Call
    by (auto simp: sys_inv_def refresh_begin_cases get_session_def)
next
  case (Complete i outcome)
  assume "sys_inv \<sigma>"
  then show ?thesis using Complete
    by (auto simp: sys_inv_def refresh_resume_unlocks)
next
  case Invalidate
  assume "sys_inv \<sigma>"
  then show ?thesis using Invalidate by (simp add: sys_inv_def)
qed

lemma foldl_step_inv: "sys_inv \<sigma> \<Longrightarrow> sys_inv (foldl (step lt) \<sigma> evs)"
  by (induction evs arbitrary: \<sigma>) (simp_all add: step_inv)

lemma run_events_inv: "\<not> refresh_lock s \<Longrightarrow> sys_inv (run_events lt s evs)"
proof -
  assume "\<not> refresh_lock s"
  then have "sys_inv (new_system s)"
    by (simp add: sys_inv_def new_system_def)
  then show ?thesis
    unfolding run_events_def by (rule foldl_step_inv)
qed

lemma new_client_inv:
  "sys_inv (run_events lt (QingLongClient host port ssl tok tok_expires cid csecret) evs)"
  by (rule run_events_inv) (simp add: QingLongClient_def)

section \<open>Single flight\<close>

text \<open>
  C1, as the code has it. A call that finds the refresh-in-progress flag set issues no
  request and leaves the client as it is. It returns \<open>False\<close> when the token is within
  86400 seconds of its expiry; when the token has more than that left, the fresh-token
  test, which comes first, returns \<open>True\<close>. From a newly constructed client, however
  refresh calls, their completions and invalidations interleave, at most one refresh
  call is suspended on the token exchange.
\<close>

theorem single_flight_guard:
  "(refresh_lock s \<longrightarrow>
      refresh_token_if_needed lt now outcome s = (Inr (token_expires s - now > 86400), s, []))
   \<and> length (pending (run_events lt
         (QingLongClient host port ssl tok tok_expires cid csecret) evs)) \<le> 1"
proof
  show "refresh_lock s \<longrightarrow>
      refresh_token_if_needed lt now outcome s = (Inr (token_expires s - now > 86400), s, [])"
    by (simp add: refresh_locked)
next
  have "sys_inv (run_events lt (QingLongClient host port ssl tok tok_expires cid csecret) evs)"
    by (rule new_client_inv)
  then show "length (pending (run_events lt
      (QingLongClient host port ssl tok tok_expires cid csecret) evs)) \<le> 1"
    by (simp add: sys_inv_def)
qed

theorem single_flight_guard_witness:
  "refresh_lock \<lparr>base_url = ''http://ql:5700'', client_id = ''id'', client_secret = ''secret'',
       token = JStr ''old'', token_expires = 5000, session = SessionOpen,
       refresh_lock = True, last_refresh_time = 0\<rparr>
   \<and> refresh_token_if_needed example_localtime 1000 (Response 200 (Body (JDict [(''code'', JInt 200)])))
       \<lparr>base_url = ''http://ql:5700'', client_id = ''id'', client_secret = ''secret'',
        token = JStr ''old'', token_expires = 5000, session = SessionOpen,
        refresh_lock = True, last_refresh_time = 0\<rparr>
     = (Inr False,
        \<lparr>base_url = ''http://ql:5700'', client_id = ''id'', client_secret = ''secret'',
         token = JStr ''old'', token_expires = 5000, session = SessionOpen,
         refresh_lock = True, last_refresh_time = 0\<rparr>, [])"
  using single_flight_guard [where lt = example_localtime and now = 1000
      and outcome = "Response 200 (Body (JDict [(''code'', JInt 200)]))" and s =
      "\<lparr>base_url = ''http://ql:5700'', client_id = ''id'', client_secret = ''secret'',
        token = JStr ''old'', token_expires = 5000, session = SessionOpen,
        refresh_lock = True, last_refresh_time = 0\<rparr>"]
  by simp

text \<open>
  C1 as stated fails: with the flag set and a token that expires 99000 seconds from
  now, the call returns \<open>True\<close>, not \<open>False\<close>.
\<close>

theorem single_flight_guard_counterexample:
  "refresh_lock \<lparr>base_url = ''http://ql:5700'', client_id = ''id'', client_secret = ''secret'',
       token = JStr ''old'', token_expires = 100000, session = SessionOpen,
       refresh_lock = True, last_refresh_time = 0\<rparr>
   \<and> fst (refresh_token_if_needed example_localtime 1000 (Raises TimeoutError)
       \<lparr>base_url = ''http://ql:5700'', client_id = ''id'', client_secret = ''secret'',
        token = JStr ''old'', token_expires = 100000, session = SessionOpen,
        refresh_lock = True, last_refresh_time = 0\<rparr>) = Inr True"
  by (simp add: refresh_token_if_needed_def refresh_begin_def TOKEN_REFRESH_THRESHOLD_def)

section \<open>Fast path and backoff\<close>

text \<open>
  C5. A client whose token expires more than 86400 seconds after the current time: the
  refresh returns \<open>True\<close>, issues no request and leaves the client unchanged. So does a
  second call right after a call that performed the exchange with success, when the new
  token has more than 86400 seconds left.
\<close>

theorem fresh_token_fast_path:
  "(token_expires s - now > 86400 \<longrightarrow>
      refresh_token_if_needed lt now outcome s = (Inr True, s, []))
   \<and> (refresh_token_if_needed lt now outcome s = (Inr True, s', reqs) \<and> reqs \<noteq> []
        \<and> token_expires s' - now > 86400 \<longrightarrow>
      refresh_token_if_needed lt now outcome' s' = (Inr True, s', []))"
  by (simp add: refresh_not_performed)

text \<open>C5 at a fresh token, and at the state a successful exchange leaves.\<close>

theorem fresh_token_fast_path_witness:
  "(100000::int) - 1000 > 86400
   \<and> refresh_token_if_needed example_localtime 1000 (Raises TimeoutError) (stale_client\<lparr>token_expires := 100000\<rparr>)
       = (Inr True, stale_client\<lparr>token_expires := 100000\<rparr>, [])
   \<and> refresh_token_if_needed example_localtime 1000 token_response stale_client =
        (Inr True,
         stale_client\<lparr>token := JStr ''new'', token_expires := 200000,
                      session := SessionOpen, last_refresh_time := 1000\<rparr>,
         [AuthRequest ''http://ql:5700/open/auth/token'' ''id'' ''secret''])
   \<and> (200000::int) - 1000 > 86400
   \<and> refresh_token_if_needed example_localtime 1000 token_response
        (stale_client\<lparr>token := JStr ''new'', token_expires := 200000,
                      session := SessionOpen, last_refresh_time := 1000\<rparr>)
       = (Inr True, stale_client\<lparr>token := JStr ''new'', token_expires := 200000,
                      session := SessionOpen, last_refresh_time := 1000\<rparr>, [])"
proof -
  have run: "refresh_token_if_needed example_localtime 1000 token_response stale_client =
        (Inr True,
         stale_client\<lparr>token := JStr ''new'', token_expires := 200000,
                      session := SessionOpen, last_refresh_time := 1000\<rparr>,
         [AuthRequest ''http://ql:5700/open/auth/token'' ''id'' ''secret''])"
    by (simp add: run_defs)
  from fresh_token_fast_path [where lt = example_localtime
      and s = "stale_client\<lparr>token_expires := 100000\<rparr>" and now = 1000
      and outcome = "Raises TimeoutError"]
    fresh_token_fast_path [where lt = example_localtime and s = stale_client and now = 1000
      and outcome = token_response and outcome' = token_response
      and s' = "stale_client\<lparr>token := JStr ''new'', token_expires := 200000,
                      session := SessionOpen, last_refresh_time := 1000\<rparr>"
      and reqs = "[AuthRequest ''http://ql:5700/open/auth/token'' ''id'' ''secret'']"]
    run
  show ?thesis by simp
qed

text \<open>
  C6. A client whose token expires at most 86400 seconds after the current time, with
  the flag clear and the last refresh less than 300 seconds back: the refresh returns
  \<open>False\<close>, issues no request and leaves the client (the token with it) unchanged.
\<close>

theorem backoff_guard:
  assumes "token_expires s - now \<le> 86400" and "\<not> refresh_lock s"
    and "now - last_refresh_time s < 300"
  shows "refresh_token_if_needed lt now outcome s = (Inr False, s, [])"
  using assms by (simp add: refresh_not_performed)

theorem backoff_guard_witness:
  "(0::int) - 1000 \<le> 86400
   \<and> \<not> refresh_lock \<lparr>base_url = ''http://ql:5700'', client_id = ''id'', client_secret = ''secret'',
       token = JStr ''old'', token_expires = 0, session = NoSession,
       refresh_lock = False, last_refresh_time = 900\<rparr>
   \<and> (1000::int) - 900 < 300
   \<and> refresh_token_if_needed example_localtime 1000 (Response 200 (Body (JDict [(''code'', JInt 200)])))
       \<lparr>base_url = ''http://ql:5700'', client_id = ''id'', client_secret = ''secret'',
        token = JStr ''old'', token_expires = 0, session = NoSession,
        refresh_lock = False, last_refresh_time = 900\<rparr>
     = (Inr False,
        \<lparr>base_url = ''http://ql:5700'', client_id = ''id'', client_secret = ''secret'',
         token = JStr ''old'', token_expires = 0, session = NoSession,
         refresh_lock = False, last_refresh_time = 900\<rparr>, [])"
  using backoff_guard [where lt = example_localtime and now = 1000
      and outcome = "Response 200 (Body (JDict [(''code'', JInt 200)]))" and s =
      "\<lparr>base_url = ''http://ql:5700'', client_id = ''id'', client_secret = ''secret'',
        token = JStr ''old'', token_expires = 0, session = NoSession,
        refresh_lock = False, last_refresh_time = 900\<rparr>"]
  by simp

section \<open>The response of the token exchange\<close>

lemma truthy_num: "num_of v = Some e \<Longrightarrow> e \<noteq> 0 \<Longrightarrow> truthy v"
  by (cases v) (auto split: if_splits)

lemma new_expiry_future: "now < new_expiry now outcome"
  by (simp add: new_expiry_def split: option.splits)

text \<open>
  A response of status 200 whose body is a dict with application code 200 and, under
  \<open>data\<close>, a dict with a non-empty token: what is left of \<open>refresh_response\<close> is the
  handling of the expiration.
\<close>

lemma response_shape:
  assumes "http_status outcome = Some 200" and "app_code outcome = Some (JInt 200)"
    and "token_field outcome = Some tok"
  shows "\<exists>kvs tkvs. outcome = Response 200 (Body (JDict kvs))
     \<and> map_of kvs ''code'' = Some (JInt 200) \<and> map_of kvs ''data'' = Some (JDict tkvs)
     \<and> map_of tkvs ''token'' = Some tok
     \<and> expiration_field outcome = map_of tkvs ''expiration''"
proof (cases outcome)
  case (Raises err)
  with assms show ?thesis by (simp add: http_status_def)
next
  case (Response status bdy)
  show ?thesis
  proof (cases bdy)
    case (BodyRaises err)
    with assms Response show ?thesis by (simp add: app_code_def)
  next
    case (Body data)
    show ?thesis
    proof (cases data)
      case (JDict kvs)
      with assms Response Body show ?thesis
        by (auto simp: http_status_def app_code_def token_field_def expiration_field_def
            split: option.splits json.splits)
    qed (use assms Response Body in \<open>simp_all add: app_code_def\<close>)
  qed
qed

lemma refresh_response_token:
  assumes "map_of kvs ''code'' = Some (JInt 200)" and "map_of kvs ''data'' = Some (JDict tkvs)"
    and "map_of tkvs ''token'' = Some tok" and "truthy tok"
  shows "refresh_response lt now (Response 200 (Body (JDict kvs))) s =
     (case map_of tkvs ''expiration'' of
        None \<Rightarrow>
          (Inr True, s\<lparr>token_expires := now + 2592000, token := tok, last_refresh_time := now\<rparr>)
      | Some v \<Rightarrow>
          if truthy v then
            (case num_of v of
               None \<Rightarrow> (Inl TypeError, s)
             | Some e \<Rightarrow>
                 if e > now then
                   (if lt e
                    then (Inr True, s\<lparr>token_expires := e, token := tok, last_refresh_time := now\<rparr>)
                    else (Inl OverflowError, s\<lparr>token_expires := e\<rparr>))
                 else
                   (Inr True,
                    s\<lparr>token_expires := now + 2592000, token := tok, last_refresh_time := now\<rparr>))
          else
            (Inr True, s\<lparr>token_expires := now + 2592000, token := tok, last_refresh_time := now\<rparr>))"
  using assms by (simp add: refresh_response_def Let_def split: option.splits)

text \<open>Outside that shape the call ends before any assignment.\<close>

lemma refresh_response_not_ok:
  assumes "http_status outcome \<noteq> Some 200 \<or> app_code outcome \<noteq> Some (JInt 200)
     \<or> (case token_field outcome of None \<Rightarrow> True | Some t \<Rightarrow> \<not> truthy t)"
  shows "fst (refresh_response lt now outcome s) \<noteq> Inr True
     \<and> snd (refresh_response lt now outcome s) = s"
proof (cases outcome)
  case (Raises err)
  then show ?thesis by (simp add: refresh_response_def)
next
  case (Response status bdy)
  show ?thesis
  proof (cases bdy)
    case (BodyRaises err)
    with Response show ?thesis by (simp add: refresh_response_def)
  next
    case (Body data)
    show ?thesis
    proof (cases data)
      case (JDict kvs)
      with assms Response Body show ?thesis
        by (auto simp: refresh_response_def http_status_def app_code_def token_field_def
            split: sum.splits option.splits json.splits if_splits)
    qed (use Response Body in \<open>simp_all add: refresh_response_def\<close>)
  qed
qed

text \<open>Within it, a usable expiration gives the success path.\<close>

lemma refresh_response_ok:
  assumes "http_status outcome = Some 200" and "app_code outcome = Some (JInt 200)"
    and "token_field outcome = Some tok" and "truthy tok"
    and "expiration_usable lt now outcome" and "0 \<le> now"
  shows "refresh_response lt now outcome s =
     (Inr True, s\<lparr>token_expires := new_expiry now outcome, token := tok,
                   last_refresh_time := now\<rparr>)"
proof -
  from response_shape [OF assms(1-3)] obtain kvs tkvs where
    out: "outcome = Response 200 (Body (JDict kvs))"
    and kv: "map_of kvs ''code'' = Some (JInt 200)" "map_of kvs ''data'' = Some (JDict tkvs)"
      "map_of tkvs ''token'' = Some tok"
    and ex: "expiration_field outcome = map_of tkvs ''expiration''"
    by blast
  have r: "refresh_response lt now outcome s =
     (case map_of tkvs ''expiration'' of
        None \<Rightarrow>
          (Inr True, s\<lparr>token_expires := now + 2592000, token := tok, last_refresh_time := now\<rparr>)
      | Some v \<Rightarrow>
          if truthy v then
            (case num_of v of
               None \<Rightarrow> (Inl TypeError, s)
             | Some e \<Rightarrow>
                 if e > now then
                   (if lt e
                    then (Inr True, s\<lparr>token_expires := e, token := tok, last_refresh_time := now\<rparr>)
                    else (Inl OverflowError, s\<lparr>token_expires := e\<rparr>))
                 else
                   (Inr True,
                    s\<lparr>token_expires := now + 2592000, token := tok, last_refresh_time := now\<rparr>))
          else
            (Inr True, s\<lparr>token_expires := now + 2592000, token := tok, last_refresh_time := now\<rparr>))"
    unfolding out by (rule refresh_response_token [OF kv assms(4)])
  show ?thesis
  proof (cases "map_of tkvs ''expiration''")
    case None
    with r ex show ?thesis by (simp add: new_expiry_def)
  next
    case (Some v)
    show ?thesis
    proof (cases "num_of v")
      case None
      with r ex Some assms(5) show ?thesis
        by (simp add: new_expiry_def expiration_usable_def split: if_splits)
    next
      case (Some e)
      have "truthy v \<or> e = 0" using Some truthy_num by blast
      with r ex \<open>map_of tkvs ''expiration'' = Some v\<close> Some assms(5,6) show ?thesis
        by (auto simp: new_expiry_def expiration_usable_def split: if_splits)
    qed
  qed
qed

text \<open>And the success path is taken only there.\<close>

lemma refresh_response_success:
  assumes "fst (refresh_response lt now outcome s) = Inr True" and "0 \<le> now"
  shows "http_status outcome = Some 200 \<and> app_code outcome = Some (JInt 200)
     \<and> (\<exists>tok. token_field outcome = Some tok \<and> truthy tok
          \<and> snd (refresh_response lt now outcome s) =
              s\<lparr>token_expires := new_expiry now outcome, token := tok,
                last_refresh_time := now\<rparr>)
     \<and> expiration_usable lt now outcome"
proof -
  from assms(1) have ok: "\<not> (http_status outcome \<noteq> Some 200 \<or> app_code outcome \<noteq> Some (JInt 200)
     \<or> (case token_field outcome of None \<Rightarrow> True | Some t \<Rightarrow> \<not> truthy t))"
    using refresh_response_not_ok [of outcome lt now s] by blast
  then obtain tok where tok: "token_field outcome = Some tok" "truthy tok"
    and st: "http_status outcome = Some 200" "app_code outcome = Some (JInt 200)"
    by (auto split: option.splits)
  from response_shape [OF st tok(1)] obtain kvs tkvs where
    out: "outcome = Response 200 (Body (JDict kvs))"
    and kv: "map_of kvs ''code'' = Some (JInt 200)" "map_of kvs ''data'' = Some (JDict tkvs)"
      "map_of tkvs ''token'' = Some tok"
    and ex: "expiration_field outcome = map_of tkvs ''expiration''"
    by blast
  have "fst (refresh_response lt now (Response 200 (Body (JDict kvs))) s) = Inr True"
    using assms(1) by (simp add: out)
  then have us: "expiration_usable lt now outcome"
    unfolding expiration_usable_def ex refresh_response_token [OF kv tok(2)]
    by (auto split: option.splits if_splits)
  from refresh_response_ok [OF st tok us assms(2)] st tok us show ?thesis
    by simp
qed

lemma refresh_resume_fst:
  "fst (refresh_resume lt now outcome s) =
     Inr (fst (refresh_response lt now outcome s) = Inr True)"
  by (auto simp: refresh_resume_def split: prod.splits sum.splits)

lemma refresh_resume_snd:
  "snd (refresh_resume lt now outcome s) =
     (snd (refresh_response lt now outcome s))\<lparr>refresh_lock := False\<rparr>"
  by (auto simp: refresh_resume_def split: prod.splits sum.splits)

lemma refresh_no_exn: "\<exists>b. fst (refresh_token_if_needed lt now outcome s) = Inr b"
proof (cases "token_expires s - now > 86400 \<or> refresh_lock s \<or> now - last_refresh_time s < 300")
  case True
  then show ?thesis by (simp add: refresh_not_performed)
next
  case False
  then show ?thesis by (simp add: refresh_performed refresh_resume_fst)
qed




text \<open>
  Conversely, a call that performs the exchange returns \<open>True\<close> only on such a response,
  and then with the token and the expiry both replaced.
\<close>

lemma refresh_true_only_on_success:
  assumes "refresh_token_if_needed lt now outcome s = (Inr True, s', reqs)"
    and "reqs \<noteq> []" and "0 \<le> now"
  shows "http_status outcome = Some 200 \<and> app_code outcome = Some (JInt 200)
     \<and> (\<exists>tok. token_field outcome = Some tok \<and> truthy tok
          \<and> s' = s\<lparr>token := tok, token_expires := new_expiry now outcome,
                    session := SessionOpen, last_refresh_time := now\<rparr>)
     \<and> expiration_usable lt now outcome \<and> now < token_expires s'"
proof -
  from assms(1,2) have performed: "snd (snd (refresh_token_if_needed lt now outcome s)) \<noteq> []"
    by simp
  then have perf: "\<not> token_expires s - now > 86400" "\<not> refresh_lock s"
      "\<not> now - last_refresh_time s < 300"
    by (simp_all add: refresh_reqs_iff)
  let ?s2 = "get_session (s\<lparr>refresh_lock := True\<rparr>)"
  from perf assms(1) have ok: "fst (refresh_response lt now outcome ?s2) = Inr True"
    by (simp add: refresh_performed refresh_resume_fst)
  from refresh_response_success [OF ok assms(3)]
  obtain tok where st: "http_status outcome = Some 200" "app_code outcome = Some (JInt 200)"
    and tok: "token_field outcome = Some tok" "truthy tok"
    and us: "expiration_usable lt now outcome"
    by blast
  have run: "refresh_token_if_needed lt now outcome s =
       (Inr True,
        s\<lparr>token := tok, token_expires := new_expiry now outcome,
          session := SessionOpen, last_refresh_time := now\<rparr>,
        [AuthRequest (base_url s @ API_AUTH) (client_id s) (client_secret s)])"
  proof -
    have upd: "refresh_response lt now outcome ?s2 =
        (Inr True, ?s2\<lparr>token_expires := new_expiry now outcome, token := tok,
                        last_refresh_time := now\<rparr>)"
      using st tok us assms(3) by (rule refresh_response_ok)
    have "?s2\<lparr>token_expires := new_expiry now outcome, token := tok,
              last_refresh_time := now, refresh_lock := False\<rparr> =
          s\<lparr>token := tok, token_expires := new_expiry now outcome,
            session := SessionOpen, last_refresh_time := now\<rparr>"
      using perf(2) by (cases s; cases "session s") (auto simp: get_session_def)
    then show ?thesis
      using perf by (simp add: refresh_performed refresh_resume_fst refresh_resume_snd upd)
  qed
  with assms(1) have "s' = s\<lparr>token := tok, token_expires := new_expiry now outcome,
                    session := SessionOpen, last_refresh_time := now\<rparr>"
    by simp
  with st tok us show ?thesis
    by (simp add: new_expiry_future)
qed

text \<open>
  C3. A call that performs the exchange and meets a status other than 200, an
  application code other than 200, or a missing or empty token returns \<open>False\<close> and
  leaves the token and its expiry as they were.
\<close>

theorem refresh_failure_atomic:
  assumes "snd (snd (refresh_token_if_needed lt now outcome s)) \<noteq> []"
    and "http_status outcome \<noteq> Some 200 \<or> app_code outcome \<noteq> Some (JInt 200)
     \<or> (case token_field outcome of None \<Rightarrow> True | Some t \<Rightarrow> \<not> truthy t)"
  shows "fst (refresh_token_if_needed lt now outcome s) = Inr False
     \<and> token (fst (snd (refresh_token_if_needed lt now outcome s))) = token s
     \<and> token_expires (fst (snd (refresh_token_if_needed lt now outcome s))) = token_expires s"
proof -
  from assms(1) have perf: "\<not> token_expires s - now > 86400" "\<not> refresh_lock s"
      "\<not> now - last_refresh_time s < 300"
    by (simp_all add: refresh_reqs_iff)
  let ?s2 = "get_session (s\<lparr>refresh_lock := True\<rparr>)"
  from refresh_response_not_ok [OF assms(2), of lt now ?s2]
  have nok: "fst (refresh_response lt now outcome ?s2) \<noteq> Inr True"
    and same: "snd (refresh_response lt now outcome ?s2) = ?s2"
    by simp_all
  have "refresh_token_if_needed lt now outcome s =
      (Inr False, ?s2\<lparr>refresh_lock := False\<rparr>,
       [AuthRequest (base_url s @ API_AUTH) (client_id s) (client_secret s)])"
    using perf nok by (simp add: refresh_performed refresh_resume_fst refresh_resume_snd same)
  then show ?thesis
    by (simp add: get_session_def)
qed

theorem refresh_failure_atomic_witness:
  "snd (snd (refresh_token_if_needed example_localtime 1000 (Response 200 (Body (JDict [(''code'', JInt 500)])))
        stale_client)) \<noteq> []
   \<and> app_code (Response 200 (Body (JDict [(''code'', JInt 500)]))) \<noteq> Some (JInt 200)
   \<and> fst (refresh_token_if_needed example_localtime 1000 (Response 200 (Body (JDict [(''code'', JInt 500)])))
        stale_client) = Inr False
   \<and> token (fst (snd (refresh_token_if_needed example_localtime 1000
        (Response 200 (Body (JDict [(''code'', JInt 500)]))) stale_client))) = JStr ''old''
   \<and> token_expires (fst (snd (refresh_token_if_needed example_localtime 1000
        (Response 200 (Body (JDict [(''code'', JInt 500)]))) stale_client))) = 0"
proof -
  have performed: "snd (snd (refresh_token_if_needed example_localtime 1000
      (Response 200 (Body (JDict [(''code'', JInt 500)]))) stale_client)) \<noteq> []"
    by (simp add: run_defs)
  have code: "app_code (Response 200 (Body (JDict [(''code'', JInt 500)]))) \<noteq> Some (JInt 200)"
    by (simp add: app_code_def)
  from refresh_failure_atomic [OF performed] code performed show ?thesis
    by simp
qed

section \<open>The refresh-in-progress flag\<close>

text \<open>
  C4, as the code has it. The call never raises. A call that performs the exchange
  leaves the flag clear, whatever the outcome of the request, an exception included. A
  call that returns before the exchange leaves the client, and so the flag, as it found
  it; so the flag is clear after every call that found it clear. In the interleaved
  system started from a new client the flag is set exactly while a refresh call is
  suspended on its request.
\<close>

theorem refresh_lock_on_exit:
  "(\<exists>b. fst (refresh_token_if_needed lt now outcome s) = Inr b)
   \<and> (snd (snd (refresh_token_if_needed lt now outcome s)) \<noteq> [] \<longrightarrow>
        \<not> refresh_lock (fst (snd (refresh_token_if_needed lt now outcome s))))
   \<and> (snd (snd (refresh_token_if_needed lt now outcome s)) = [] \<longrightarrow>
        fst (snd (refresh_token_if_needed lt now outcome s)) = s)
   \<and> (\<not> refresh_lock s \<longrightarrow>
        \<not> refresh_lock (fst (snd (refresh_token_if_needed lt now outcome s))))
   \<and> refresh_lock (cl (run_events lt (QingLongClient host port ssl tok tok_expires cid csecret) evs))
       = (pending (run_events lt (QingLongClient host port ssl tok tok_expires cid csecret) evs) \<noteq> [])"
proof -
  have inv: "sys_inv (run_events lt (QingLongClient host port ssl tok tok_expires cid csecret) evs)"
    by (rule new_client_inv)
  show ?thesis
  proof (cases "token_expires s - now > 86400 \<or> refresh_lock s \<or> now - last_refresh_time s < 300")
    case True
    then show ?thesis using inv
      by (auto simp add: refresh_not_performed sys_inv_def)
  next
    case False
    then show ?thesis using inv
      by (auto simp add: refresh_performed refresh_resume_fst refresh_resume_snd sys_inv_def)
  qed
qed

theorem refresh_lock_on_exit_witness:
  "snd (snd (refresh_token_if_needed example_localtime 1000 (Raises TimeoutError) stale_client)) \<noteq> []
   \<and> \<not> refresh_lock stale_client
   \<and> \<not> refresh_lock (fst (snd (refresh_token_if_needed example_localtime 1000 (Raises TimeoutError) stale_client)))
   \<and> snd (snd (refresh_token_if_needed example_localtime 1000 (Raises TimeoutError)
        (stale_client\<lparr>last_refresh_time := 900\<rparr>))) = []
   \<and> fst (snd (refresh_token_if_needed example_localtime 1000 (Raises TimeoutError)
        (stale_client\<lparr>last_refresh_time := 900\<rparr>))) = stale_client\<lparr>last_refresh_time := 900\<rparr>"
proof -
  have a: "snd (snd (refresh_token_if_needed example_localtime 1000 (Raises TimeoutError) stale_client)) \<noteq> []"
    by (simp add: run_defs)
  have b: "snd (snd (refresh_token_if_needed example_localtime 1000 (Raises TimeoutError)
        (stale_client\<lparr>last_refresh_time := 900\<rparr>))) = []"
    by (simp add: run_defs)
  from refresh_lock_on_exit [where lt = example_localtime and now = 1000
      and outcome = "Raises TimeoutError" and s = stale_client] a
    refresh_lock_on_exit [where lt = example_localtime and now = 1000
      and outcome = "Raises TimeoutError"
      and s = "stale_client\<lparr>last_refresh_time := 900\<rparr>"] b
  show ?thesis by simp
qed

text \<open>
  C4 as stated fails on the early return of the single-flight test: a call that finds
  the flag set returns with the flag still set.
\<close>

theorem refresh_lock_on_exit_counterexample:
  "refresh_lock (stale_client\<lparr>refresh_lock := True\<rparr>)
   \<and> refresh_lock (fst (snd (refresh_token_if_needed example_localtime 1000 (Raises TimeoutError)
        (stale_client\<lparr>refresh_lock := True\<rparr>))))"
  by (simp add: run_defs)

section \<open>Backoff after a failed attempt\<close>

text \<open>
  C7 fails on the code. The time of the last refresh is written on the success path
  only, so a failed attempt does not start the 300 second interval: two calls one second
  apart, both answered with HTTP 500, both send the token-exchange request.
\<close>

theorem backoff_skipped_after_failure:
  "refresh_token_if_needed example_localtime 1000 (Response 500 (Body JNull)) stale_client =
     (Inr False, stale_client\<lparr>session := SessionOpen\<rparr>,
      [AuthRequest ''http://ql:5700/open/auth/token'' ''id'' ''secret''])
   \<and> refresh_token_if_needed example_localtime 1001 (Response 500 (Body JNull))
       (stale_client\<lparr>session := SessionOpen\<rparr>) =
     (Inr False, stale_client\<lparr>session := SessionOpen\<rparr>,
      [AuthRequest ''http://ql:5700/open/auth/token'' ''id'' ''secret''])"
  by (simp add: run_defs)

text \<open>
  In general: an attempt that fails on its status, its application code or its token
  leaves the time of the last refresh as it was, so any later call, however soon, performs
  the exchange again. After a success the interval holds: a call less than 300 seconds
  later sends nothing.
\<close>

lemma failed_refresh_retried:
  assumes "snd (snd (refresh_token_if_needed lt now outcome s)) \<noteq> []"
    and "http_status outcome \<noteq> Some 200 \<or> app_code outcome \<noteq> Some (JInt 200)
     \<or> (case token_field outcome of None \<Rightarrow> True | Some t \<Rightarrow> \<not> truthy t)"
    and "now \<le> now'"
  shows "snd (snd (refresh_token_if_needed lt now' outcome'
            (fst (snd (refresh_token_if_needed lt now outcome s))))) \<noteq> []"
proof -
  from assms(1) have perf: "\<not> token_expires s - now > 86400" "\<not> refresh_lock s"
      "\<not> now - last_refresh_time s < 300"
    by (simp_all add: refresh_reqs_iff)
  let ?s2 = "get_session (s\<lparr>refresh_lock := True\<rparr>)"
  from refresh_response_not_ok [OF assms(2), of lt now ?s2]
  have same: "snd (refresh_response lt now outcome ?s2) = ?s2"
    by simp
  have after: "fst (snd (refresh_token_if_needed lt now outcome s)) = ?s2\<lparr>refresh_lock := False\<rparr>"
    using perf by (simp add: refresh_performed refresh_resume_snd same)
  show ?thesis
    using perf assms(3) unfolding after refresh_reqs_iff
    by (simp add: get_session_def)
qed

lemma backoff_after_success:
  assumes "snd (snd (refresh_token_if_needed lt now outcome s)) \<noteq> []"
    and "fst (refresh_token_if_needed lt now outcome s) = Inr True"
    and "0 \<le> now" and "now' - now < 300"
  shows "snd (snd (refresh_token_if_needed lt now' outcome'
            (fst (snd (refresh_token_if_needed lt now outcome s))))) = []"
proof -
  from assms(1) have perf: "\<not> token_expires s - now > 86400" "\<not> refresh_lock s"
      "\<not> now - last_refresh_time s < 300"
    by (simp_all add: refresh_reqs_iff)
  let ?s2 = "get_session (s\<lparr>refresh_lock := True\<rparr>)"
  from perf assms(2) have ok: "fst (refresh_response lt now outcome ?s2) = Inr True"
    by (simp add: refresh_performed refresh_resume_fst)
  from refresh_response_success [OF ok assms(3)]
  have "last_refresh_time (snd (refresh_response lt now outcome ?s2)) = now"
    by auto
  then have "last_refresh_time (fst (snd (refresh_token_if_needed lt now outcome s))) = now"
    using perf by (simp add: refresh_performed refresh_resume_snd)
  with assms(4) show ?thesis
    using refresh_reqs_iff [of lt now' outcome' "fst (snd (refresh_token_if_needed lt now outcome s))"]
    by simp
qed

section \<open>Running a task\<close>

lemma refresh_triple:
  "\<exists>b s1 reqs. refresh_token_if_needed lt now outcome s = (Inr b, s1, reqs)"
  using refresh_no_exn [of lt now outcome s]
  by (cases "refresh_token_if_needed lt now outcome s") auto

lemma run_task_body_result:
  "fst (run_task_body lt now auth_outcome run_outcome task_id s) = Inr True \<longleftrightarrow>
     http_status run_outcome = Some 200 \<and> app_code run_outcome = Some (JInt 200)"
proof -
  obtain b s1 reqs where r: "refresh_token_if_needed lt now auth_outcome s = (Inr b, s1, reqs)"
    using refresh_triple by blast
  show ?thesis
  proof (cases run_outcome)
    case (Raises err)
    with r show ?thesis by (simp add: run_task_body_def http_status_def Let_def)
  next
    case (Response status bdy)
    show ?thesis
    proof (cases bdy)
      case (BodyRaises err)
      with r Response show ?thesis
        by (simp add: run_task_body_def http_status_def app_code_def Let_def)
    next
      case (Body result)
      with r Response show ?thesis
        by (cases result)
          (auto simp: run_task_body_def http_status_def app_code_def Let_def
            split: option.splits)
    qed
  qed
qed

lemma run_task_body_401:
  assumes "http_status run_outcome = Some 401"
  shows "last_refresh_time (fst (snd (run_task_body lt now auth_outcome run_outcome task_id s))) = 0"
proof -
  obtain b s1 reqs where r: "refresh_token_if_needed lt now auth_outcome s = (Inr b, s1, reqs)"
    using refresh_triple by blast
  from assms obtain bdy where "run_outcome = Response 401 bdy"
    by (cases run_outcome) (auto simp: http_status_def)
  with r show ?thesis by (simp add: run_task_body_def Let_def)
qed

lemma async_run_task_fst:
  "fst (async_run_task lt now auth_outcome run_outcome task_id s) =
     Inr (fst (run_task_body lt now auth_outcome run_outcome task_id s) = Inr True)"
  by (auto simp: async_run_task_def split: prod.splits sum.splits)

lemma async_run_task_snd:
  "snd (async_run_task lt now auth_outcome run_outcome task_id s) =
     snd (run_task_body lt now auth_outcome run_outcome task_id s)"
  by (auto simp: async_run_task_def split: prod.splits sum.splits)

text \<open>
  C8. For every task id, \<open>async_run_task\<close> returns \<open>True\<close> when the response has HTTP
  status 200 and a body whose application code is 200, and \<open>False\<close> in every other
  case (another status, another code, a body that is no dict or cannot be decoded, an
  exception). On HTTP 401 it returns \<open>False\<close> with the time of the last refresh reset to
  0.
\<close>

theorem run_task_result:
  "fst (async_run_task lt now auth_outcome run_outcome task_id s) =
     Inr (http_status run_outcome = Some 200 \<and> app_code run_outcome = Some (JInt 200))
   \<and> (http_status run_outcome = Some 401 \<longrightarrow>
        fst (async_run_task lt now auth_outcome run_outcome task_id s) = Inr False
        \<and> last_refresh_time (fst (snd (async_run_task lt now auth_outcome run_outcome task_id s))) = 0)"
  by (simp add: async_run_task_fst async_run_task_snd run_task_body_result run_task_body_401)

theorem run_task_result_witness:
  "http_status (Response 401 (Body JNull)) = Some 401
   \<and> fst (async_run_task example_localtime 1000 (Raises TimeoutError) (Response 401 (Body JNull)) ''7''
        (stale_client\<lparr>last_refresh_time := 900\<rparr>)) = Inr False
   \<and> last_refresh_time (fst (snd (async_run_task example_localtime 1000 (Raises TimeoutError)
        (Response 401 (Body JNull)) ''7'' (stale_client\<lparr>last_refresh_time := 900\<rparr>)))) = 0"
  using run_task_result [where lt = example_localtime and run_outcome = "Response 401 (Body JNull)" and now = 1000
      and auth_outcome = "Raises TimeoutError" and task_id = "''7''"
      and s = "stale_client\<lparr>last_refresh_time := 900\<rparr>"]
  by (simp add: http_status_def)

section \<open>No exception leaves the task client\<close>

lemma get_tasks_body_result:
  "(\<exists>kvs. get_tasks_body lt now auth_outcome crons_outcome s
            = (Inr (JDict kvs), snd (get_tasks_body lt now auth_outcome crons_outcome s))
          \<and> (kvs = [] \<or> (crons_outcome = Response 200 (Body (JDict kvs))
                \<and> map_of kvs ''code'' = Some (JInt 200))))
   \<or> (\<exists>err. fst (get_tasks_body lt now auth_outcome crons_outcome s) = Inl err)"
proof -
  obtain b s1 reqs where r: "refresh_token_if_needed lt now auth_outcome s = (Inr b, s1, reqs)"
    using refresh_triple by blast
  show ?thesis
  proof (cases crons_outcome)
    case (Raises err)
    with r show ?thesis by (simp add: get_tasks_body_def Let_def)
  next
    case (Response status bdy)
    show ?thesis
    proof (cases bdy)
      case (BodyRaises err)
      with r Response show ?thesis
        by (simp add: get_tasks_body_def Let_def)
    next
      case (Body result)
      with r Response show ?thesis
        by (cases result)
          (auto simp: get_tasks_body_def Let_def split: option.splits)
    qed
  qed
qed

lemma async_get_tasks_result:
  "\<exists>kvs. fst (async_get_tasks lt now auth_outcome crons_outcome s) = Inr (JDict kvs)
      \<and> (kvs = [] \<or> (crons_outcome = Response 200 (Body (JDict kvs))
                \<and> map_of kvs ''code'' = Some (JInt 200)))"
  using get_tasks_body_result [of lt now auth_outcome crons_outcome s]
  by (auto simp: async_get_tasks_def split: prod.splits sum.splits)

text \<open>
  C9. Whatever the two HTTP calls do (raise, answer with any status, with a body that
  does not decode or is of the wrong shape), \<open>async_run_task\<close> returns a boolean and
  \<open>async_get_tasks\<close> returns a dict, which is empty unless the response had status 200
  and application code 200; neither returns an exception.
\<close>

theorem no_exception_escapes:
  "(\<exists>b. fst (async_run_task lt now auth_outcome run_outcome task_id s) = Inr b)
   \<and> (\<exists>kvs. fst (async_get_tasks lt now auth_outcome crons_outcome s) = Inr (JDict kvs)
         \<and> (kvs = [] \<or> (http_status crons_outcome = Some 200
                \<and> app_code crons_outcome = Some (JInt 200))))"
proof
  show "\<exists>b. fst (async_run_task lt now auth_outcome run_outcome task_id s) = Inr b"
    by (simp add: async_run_task_fst)
next
  from async_get_tasks_result [of lt now auth_outcome crons_outcome s]
  show "\<exists>kvs. fst (async_get_tasks lt now auth_outcome crons_outcome s) = Inr (JDict kvs)
         \<and> (kvs = [] \<or> (http_status crons_outcome = Some 200
                \<and> app_code crons_outcome = Some (JInt 200)))"
    by (auto simp: http_status_def app_code_def)
qed

section \<open>The task list\<close>

lemma get_tasks_body_ok:
  assumes "crons_outcome = Response 200 (Body (JDict kvs))"
    and "map_of kvs ''code'' = Some (JInt 200)"
  shows "fst (get_tasks_body lt now auth_outcome crons_outcome s) = Inr (JDict kvs)"
proof -
  obtain b s1 reqs where r: "refresh_token_if_needed lt now auth_outcome s = (Inr b, s1, reqs)"
    using refresh_triple by blast
  with assms show ?thesis by (simp add: get_tasks_body_def Let_def)
qed

lemma async_get_tasks_ok:
  assumes "crons_outcome = Response 200 (Body (JDict kvs))"
    and "map_of kvs ''code'' = Some (JInt 200)"
  shows "fst (async_get_tasks lt now auth_outcome crons_outcome s) = Inr (JDict kvs)"
  using get_tasks_body_ok [OF assms, of lt now auth_outcome s]
  by (auto simp: async_get_tasks_def split: prod.splits sum.splits)

text \<open>
  C10. For a response \<open>{code: 200, data: {data: [t1, ..., tn], total: N}}\<close> the client
  returns the payload as it is and the extraction gives the inner list. For the example
  of the specification the list holds one task, with id \<open>1\<close> and command
  \<open>task foo.js\<close>, counted as enabled.
\<close>

theorem task_list_parsing:
  "(crons_outcome = Response 200 (Body (JDict kvs)) \<and> map_of kvs ''code'' = Some (JInt 200)
      \<and> map_of kvs ''data'' = Some (JDict inner) \<and> map_of inner ''data'' = Some (JList tasks)
     \<longrightarrow> fst (async_get_tasks lt now auth_outcome crons_outcome s) = Inr (JDict kvs)
         \<and> extract_tasks_list (JDict kvs) = JList tasks)
   \<and> extract_tasks_list example_payload = JList [example_task]
   \<and> get_tasks_attributes [example_task] =
        \<lparr>total_tasks = 1, commands = [JStr ''task foo.js''],
         enabled_tasks = 1, disabled_tasks = 0\<rparr>
   \<and> dict_get example_task ''id'' JNull = Inr (JStr ''1'')
   \<and> dict_get example_task ''command'' JNull = Inr (JStr ''task foo.js'')"
  by (simp add: async_get_tasks_ok extract_tasks_list_def get_tasks_attributes_def)

theorem task_list_parsing_witness:
  "map_of [(''code'', JInt 200),
            (''data'', JDict [(''data'', JList [example_task]), (''total'', JInt 1)])] ''code''
     = Some (JInt 200)
   \<and> fst (async_get_tasks example_localtime 1000 (Raises TimeoutError) (Response 200 (Body example_payload))
        stale_client) = Inr example_payload
   \<and> extract_tasks_list example_payload = JList [example_task]"
  using task_list_parsing [where lt = example_localtime and crons_outcome = "Response 200 (Body example_payload)"
      and kvs = "[(''code'', JInt 200),
            (''data'', JDict [(''data'', JList [example_task]), (''total'', JInt 1)])]"
      and inner = "[(''data'', JList [example_task]), (''total'', JInt 1)]"
      and tasks = "[example_task]" and now = 1000 and auth_outcome = "Raises TimeoutError"
      and s = stale_client]
  by simp

end
